theory Spec2Isabelle
  imports Complex_Main
begin

section \<open>Data model\<close>

text \<open>
  The controllers \<^verbatim>\<open>orderController.js\<close> and \<^verbatim>\<open>cartController.js\<close> work on three
  MongoDB collections (carts, products, orders) through Mongoose. A document identifier
  (\<^verbatim>\<open>ObjectId\<close>) is an opaque value, modelled as a natural number. A JavaScript
  \<^verbatim>\<open>Number\<close> is modelled as an exact rational: the properties below depend only on
  comparisons and on the order in which the source adds and multiplies, not on rounding.
\<close>

type_synonym objectId = nat
type_synonym number = rat

text \<open>The fields of \<^verbatim>\<open>models/Product.js\<close> that the two controllers read or write.
  The identifier of a product is the key under which the collection holds it.\<close>

record product =
  p_name :: string
  p_price :: number
  p_stock :: number
  p_images :: "string list"
  p_isActive :: bool

text \<open>
  Modelled from the spec: \<^verbatim>\<open>models/Cart.js\<close> is not among the sources. The spec's cart is
  owned by one user and holds an ordered collection of line items, each a product
  reference, a quantity and a price; the controllers read and write exactly the fields
  \<^verbatim>\<open>user\<close>, \<^verbatim>\<open>items\<close>, and \<^verbatim>\<open>product\<close>, \<^verbatim>\<open>quantity\<close>, \<^verbatim>\<open>price\<close> of a line.
\<close>

record cart_item =
  ci_product :: objectId
  ci_quantity :: number
  ci_price :: number

record cart =
  c_id :: objectId
  c_user :: objectId
  c_items :: "cart_item list"

text \<open>A cart line after \<^verbatim>\<open>.populate('items.product')\<close>: the reference is replaced by the
  product document (its \<^verbatim>\<open>_id\<close> with its fields), or by \<^verbatim>\<open>null\<close> when no such
  product exists.\<close>

record populated_item =
  pi_product :: "(objectId \<times> product) option"
  pi_quantity :: number
  pi_price :: number

record populated_cart =
  pc_id :: objectId
  pc_user :: objectId
  pc_items :: "populated_item list"

record order_item =
  oi_product :: objectId
  oi_name :: string
  oi_quantity :: number
  oi_price :: number
  oi_image :: string

text \<open>
  Modelled from the spec: \<^verbatim>\<open>models/Order.js\<close> is not among the sources. The fields are
  those \<^verbatim>\<open>orderController.js\<close> assigns; the shipping address has the five fields the spec
  lists. Times are values of \<^verbatim>\<open>Date.now()\<close>.
\<close>

record shippingAddress =
  sa_fullName :: string
  sa_address :: string
  sa_city :: string
  sa_postalCode :: string
  sa_country :: string

record order =
  o_id :: objectId
  o_user :: objectId
  o_orderItems :: "order_item list"
  o_shippingAddress :: shippingAddress
  o_paymentMethod :: string
  o_paymentResult :: "string option"
  o_itemsPrice :: number
  o_taxPrice :: number
  o_shippingPrice :: number
  o_totalPrice :: number
  o_isPaid :: bool
  o_paidAt :: "nat option"
  o_isDelivered :: bool
  o_deliveredAt :: "nat option"
  o_status :: string

text \<open>The authenticated requester, \<^verbatim>\<open>req.user\<close>.\<close>

record user =
  u_id :: objectId
  u_role :: string

text \<open>
  The database. The cart collection is keyed by the owning user, which is the only way
  the controllers look a cart up (\<^verbatim>\<open>Cart.findOne({ user: req.user.id })\<close>); products and
  orders are keyed by \<^verbatim>\<open>_id\<close>. \<open>nextId\<close> is the source of fresh identifiers.
\<close>

record db =
  carts :: "objectId \<rightharpoonup> cart"
  products :: "objectId \<rightharpoonup> product"
  orders :: "objectId \<rightharpoonup> order"
  nextId :: objectId

text \<open>
  Every early \<^verbatim>\<open>return res.status(...).json({ success: false, message })\<close> and every
  exception handed to \<^verbatim>\<open>asyncHandler\<close> is a value of this type.
  \<^item> \<open>CartEmpty\<close>: 400 \<^verbatim>\<open>Cart is empty\<close>
  \<^item> \<open>NoLongerAvailable n\<close>: 400 \<^verbatim>\<open>Product ${n} is no longer available\<close>
  \<^item> \<open>NotEnoughStock n k\<close>: 400 \<^verbatim>\<open>Not enough stock for ${n}. Available: ${k}\<close>
  \<^item> \<open>OrderValidationError\<close>: \<^verbatim>\<open>Order.create\<close> rejects the document
  \<^item> \<open>TypeError\<close>: a property of \<^verbatim>\<open>null\<close> is read
  \<^item> \<open>ProductNotFound\<close>: 404 \<^verbatim>\<open>Product not found\<close>
  \<^item> \<open>OnlyAvailable k\<close>: 400 \<^verbatim>\<open>Only ${k} items available in stock\<close>
  \<^item> \<open>CannotAddMore q k\<close>: 400 \<^verbatim>\<open>Cannot add ${q} more items. Only ${k} more available\<close>
  \<^item> \<open>CartNotFound\<close>: 404 \<^verbatim>\<open>Cart not found\<close>
  \<^item> \<open>ItemNotInCart\<close>: 404 \<^verbatim>\<open>Item not found in cart\<close>
  \<^item> \<open>OrderNotFound\<close>: 404 \<^verbatim>\<open>Order not found\<close>
  \<^item> \<open>AlreadyPaid\<close>: 400 \<^verbatim>\<open>Order is already paid\<close>
  \<^item> \<open>AlreadyDelivered\<close>: 400 \<^verbatim>\<open>Order is already delivered\<close>
  \<^item> \<open>NotAuthorized\<close>: 403 \<^verbatim>\<open>Not authorized to update this order\<close>
  \<^item> \<open>InvalidStatus\<close>: 400 \<^verbatim>\<open>Invalid status. Valid statuses: ...\<close>
\<close>

datatype error =
    CartEmpty
  | NoLongerAvailable string
  | NotEnoughStock string number
  | OrderValidationError
  | TypeError
  | ProductNotFound
  | OnlyAvailable number
  | CannotAddMore number number
  | CartNotFound
  | ItemNotInCart
  | OrderNotFound
  | AlreadyPaid
  | AlreadyDelivered
  | NotAuthorized
  | InvalidStatus

section \<open>Checkout: \<^verbatim>\<open>createOrder\<close>\<close>

text \<open>\<^verbatim>\<open>.populate('items.product')\<close> on one cart line, against the products collection.\<close>

definition populate :: "(objectId \<rightharpoonup> product) \<Rightarrow> cart_item \<Rightarrow> populated_item" where
  "populate ps it =
     \<lparr>pi_product = map_option (\<lambda>p. (ci_product it, p)) (ps (ci_product it)),
      pi_quantity = ci_quantity it,
      pi_price = ci_price it\<rparr>"

text \<open>\<^verbatim>\<open>product.images[0] || ''\<close>.\<close>

definition firstImage :: "string list \<Rightarrow> string" where
  "firstImage imgs = (case imgs of [] \<Rightarrow> '''' | i # _ \<Rightarrow> i)"

text \<open>
  Lines 27 to 54: the loop that validates every cart line and accumulates
  \<^verbatim>\<open>orderItems\<close> and \<^verbatim>\<open>totalPrice\<close>. It returns at the first line whose product is
  missing or inactive, or whose stock is below the line's quantity.
\<close>

fun validateItems ::
  "populated_item list \<Rightarrow> order_item list \<Rightarrow> number \<Rightarrow> error + (order_item list \<times> number)"
where
  "validateItems [] orderItems totalPrice = Inr (orderItems, totalPrice)"
| "validateItems (item # rest) orderItems totalPrice =
     (case pi_product item of
        None \<Rightarrow> Inl (NoLongerAvailable ''Unknown'')
      | Some (pid, product) \<Rightarrow>
          if \<not> p_isActive product then Inl (NoLongerAvailable (p_name product))
          else if p_stock product < pi_quantity item
            then Inl (NotEnoughStock (p_name product) (p_stock product))
          else
            let itemTotal = pi_price item * pi_quantity item
            in validateItems rest
                 (orderItems @
                    [\<lparr>oi_product = pid, oi_name = p_name product,
                      oi_quantity = pi_quantity item, oi_price = pi_price item,
                      oi_image = firstImage (p_images product)\<rparr>])
                 (totalPrice + itemTotal))"

text \<open>Lines 57 and 58: tax and shipping from the items subtotal.\<close>

definition taxPrice :: "number \<Rightarrow> number" where
  "taxPrice totalPrice = totalPrice * (1 / 10)"

definition shippingPrice :: "number \<Rightarrow> number" where
  "shippingPrice totalPrice = (if totalPrice > 100 then 0 else 10)"

text \<open>
  Modelled from the spec: \<^verbatim>\<open>models/Order.js\<close> is not among the sources. The spec's order
  writer requires every field of the shipping address to be a non-empty string and the
  payment method to be one of a fixed enumerated set; the set itself is not given and is
  the parameter \<open>methods\<close>. A new order starts unpaid, undelivered and \<^verbatim>\<open>pending\<close>.
  \<^verbatim>\<open>Order.create\<close> throws when the document is invalid, and stores it under a fresh
  identifier otherwise.
\<close>

definition orderValid :: "string list \<Rightarrow> shippingAddress \<Rightarrow> string \<Rightarrow> bool" where
  "orderValid methods sa pm \<longleftrightarrow>
     sa_fullName sa \<noteq> [] \<and> sa_address sa \<noteq> [] \<and> sa_city sa \<noteq> [] \<and>
     sa_postalCode sa \<noteq> [] \<and> sa_country sa \<noteq> [] \<and> pm \<in> set methods"

definition Order_create ::
  "string list \<Rightarrow> objectId \<Rightarrow> order_item list \<Rightarrow> shippingAddress \<Rightarrow> string \<Rightarrow>
   number \<Rightarrow> number \<Rightarrow> number \<Rightarrow> number \<Rightarrow> db \<Rightarrow> error + (order \<times> db)"
where
  "Order_create methods uid orderItems sa pm itemsPrice tax shipping finalTotal s =
     (if \<not> orderValid methods sa pm then Inl OrderValidationError
      else
        let order =
          \<lparr>o_id = nextId s, o_user = uid, o_orderItems = orderItems,
           o_shippingAddress = sa, o_paymentMethod = pm, o_paymentResult = None,
           o_itemsPrice = itemsPrice, o_taxPrice = tax, o_shippingPrice = shipping,
           o_totalPrice = finalTotal, o_isPaid = False, o_paidAt = None,
           o_isDelivered = False, o_deliveredAt = None, o_status = ''pending''\<rparr>
        in Inr (order, s\<lparr>orders := (orders s)(nextId s \<mapsto> order), nextId := Suc (nextId s)\<rparr>))"

text \<open>
  Lines 75 to 78: \<^verbatim>\<open>Product.findByIdAndUpdate(id, { $inc: { stock: -quantity } })\<close>.
  The update adds to the stored stock whatever its value; no validator runs, and an
  identifier that matches no document changes nothing.
\<close>

definition incStock :: "objectId \<Rightarrow> number \<Rightarrow> (objectId \<rightharpoonup> product) \<Rightarrow> (objectId \<rightharpoonup> product)" where
  "incStock pid n ps =
     (case ps pid of None \<Rightarrow> ps | Some p \<Rightarrow> ps(pid \<mapsto> p\<lparr>p_stock := p_stock p + n\<rparr>))"

text \<open>
  Lines 74 to 79: the stock loop over the populated cart lines. Reading
  \<^verbatim>\<open>item.product._id\<close> of a line whose product is \<^verbatim>\<open>null\<close> throws; the updates made
  before that stay.
\<close>

fun updateStock ::
  "populated_item list \<Rightarrow> (objectId \<rightharpoonup> product) \<Rightarrow> error option \<times> (objectId \<rightharpoonup> product)"
where
  "updateStock [] ps = (None, ps)"
| "updateStock (item # rest) ps =
     (case pi_product item of
        None \<Rightarrow> (Some TypeError, ps)
      | Some (pid, product) \<Rightarrow> updateStock rest (incStock pid (- pi_quantity item) ps))"

text \<open>
  \<^verbatim>\<open>createOrder\<close>, lines 9 to 94. The result is the response (the error, or the created
  order) and the database after the request. \<open>methods\<close> is the set of payment methods
  of the order schema.
\<close>

definition createOrder ::
  "string list \<Rightarrow> user \<Rightarrow> shippingAddress \<Rightarrow> string \<Rightarrow> db \<Rightarrow> (error + order) \<times> db"
where
  "createOrder methods u sa pm s =
     (case carts s (u_id u) of
        None \<Rightarrow> (Inl CartEmpty, s)
      | Some cart \<Rightarrow>
          if length (c_items cart) = 0 then (Inl CartEmpty, s)
          else
            let items = map (populate (products s)) (c_items cart)
            in case validateItems items [] 0 of
                 Inl e \<Rightarrow> (Inl e, s)
               | Inr (orderItems, totalPrice) \<Rightarrow>
                   let tax = taxPrice totalPrice;
                       shipping = shippingPrice totalPrice;
                       finalTotal = totalPrice + tax + shipping
                   in case Order_create methods (u_id u) orderItems sa pm
                             totalPrice tax shipping finalTotal s of
                        Inl e \<Rightarrow> (Inl e, s)
                      | Inr (order, s1) \<Rightarrow>
                          (case updateStock items (products s1) of
                             (Some e, ps) \<Rightarrow> (Inl e, s1\<lparr>products := ps\<rparr>)
                           | (None, ps) \<Rightarrow>
                               (Inr order,
                                s1\<lparr>products := ps,
                                   carts := (carts s1)(u_id u \<mapsto> cart\<lparr>c_items := []\<rparr>)\<rparr>)))"

section \<open>The cart: \<^verbatim>\<open>getCart\<close>, \<^verbatim>\<open>addToCart\<close>, \<^verbatim>\<open>updateCartItem\<close>\<close>

text \<open>\<^verbatim>\<open>Cart.create({ user, items: [] })\<close>: a new, empty cart under a fresh identifier.\<close>

definition Cart_create :: "objectId \<Rightarrow> db \<Rightarrow> cart \<times> db" where
  "Cart_create uid s =
     (let cart = \<lparr>c_id = nextId s, c_user = uid, c_items = []\<rparr>
      in (cart, s\<lparr>carts := (carts s)(uid \<mapsto> cart), nextId := Suc (nextId s)\<rparr>))"

text \<open>The response body of the cart endpoints: the cart with its lines populated.\<close>

definition populateCart :: "(objectId \<rightharpoonup> product) \<Rightarrow> cart \<Rightarrow> populated_cart" where
  "populateCart ps c =
     \<lparr>pc_id = c_id c, pc_user = c_user c, pc_items = map (populate ps) (c_items c)\<rparr>"

text \<open>The callback of the \<^verbatim>\<open>filter\<close> in \<^verbatim>\<open>getCart\<close>, lines 17 to 21.\<close>

definition validItem :: "populated_item \<Rightarrow> bool" where
  "validItem item =
     (case pi_product item of
        None \<Rightarrow> False
      | Some (pid, product) \<Rightarrow> p_stock product > 0 \<and> pi_quantity item \<le> p_stock product)"

text \<open>Saving a populated line stores the reference of its product again.\<close>

definition depopulate :: "populated_item \<Rightarrow> cart_item option" where
  "depopulate item =
     (case pi_product item of
        None \<Rightarrow> None
      | Some (pid, product) \<Rightarrow>
          Some \<lparr>ci_product = pid, ci_quantity = pi_quantity item, ci_price = pi_price item\<rparr>)"

text \<open>
  \<^verbatim>\<open>getCart\<close>, lines 8 to 32: the cart is created when the user has none, the lines
  that fail the filter are dropped, and the cart is saved when a line was dropped.
\<close>

definition getCart :: "user \<Rightarrow> db \<Rightarrow> populated_cart \<times> db" where
  "getCart u s =
     (let (cart, s1) = (case carts s (u_id u) of
                          None \<Rightarrow> Cart_create (u_id u) s
                        | Some c \<Rightarrow> (c, s));
          items = map (populate (products s1)) (c_items cart);
          validItems = filter validItem items
      in if length validItems \<noteq> length items
         then (\<lparr>pc_id = c_id cart, pc_user = c_user cart, pc_items = validItems\<rparr>,
               s1\<lparr>carts := (carts s1)(u_id u \<mapsto>
                     cart\<lparr>c_items := List.map_filter depopulate validItems\<rparr>)\<rparr>)
         else (\<lparr>pc_id = c_id cart, pc_user = c_user cart, pc_items = items\<rparr>, s1))"

text \<open>\<^verbatim>\<open>Array.prototype.findIndex\<close>; \<open>None\<close> stands for the result \<^verbatim>\<open>-1\<close>.\<close>

fun findIndex :: "('a \<Rightarrow> bool) \<Rightarrow> 'a list \<Rightarrow> nat option" where
  "findIndex P [] = None"
| "findIndex P (x # xs) = (if P x then Some 0 else map_option Suc (findIndex P xs))"

text \<open>\<^verbatim>\<open>addToCart\<close>, lines 37 to 104.\<close>

definition addToCart ::
  "user \<Rightarrow> objectId \<Rightarrow> number \<Rightarrow> db \<Rightarrow> (error + populated_cart) \<times> db"
where
  "addToCart u productId quantity s =
     (case products s productId of
        None \<Rightarrow> (Inl ProductNotFound, s)
      | Some product \<Rightarrow>
          if \<not> p_isActive product then (Inl ProductNotFound, s)
          else if p_stock product < quantity then (Inl (OnlyAvailable (p_stock product)), s)
          else
            let (cart, s1) = (case carts s (u_id u) of
                                None \<Rightarrow> Cart_create (u_id u) s
                              | Some c \<Rightarrow> (c, s))
            in case findIndex (\<lambda>item. ci_product item = productId) (c_items cart) of
                 Some i \<Rightarrow>
                   let existing = c_items cart ! i;
                       newQuantity = ci_quantity existing + quantity
                   in if newQuantity > p_stock product
                      then (Inl (CannotAddMore quantity (p_stock product - ci_quantity existing)), s1)
                      else
                        let cart' = cart\<lparr>c_items := (c_items cart)
                                      [i := existing\<lparr>ci_quantity := newQuantity,
                                                     ci_price := p_price product\<rparr>]\<rparr>
                        in (Inr (populateCart (products s1) cart'),
                            s1\<lparr>carts := (carts s1)(u_id u \<mapsto> cart')\<rparr>)
               | None \<Rightarrow>
                   let cart' = cart\<lparr>c_items := c_items cart @
                                 [\<lparr>ci_product = productId, ci_quantity = quantity,
                                   ci_price = p_price product\<rparr>]\<rparr>
                   in (Inr (populateCart (products s1) cart'),
                       s1\<lparr>carts := (carts s1)(u_id u \<mapsto> cart')\<rparr>))"

text \<open>\<^verbatim>\<open>updateCartItem\<close>, lines 109 to 154.\<close>

definition updateCartItem ::
  "user \<Rightarrow> objectId \<Rightarrow> number \<Rightarrow> db \<Rightarrow> (error + populated_cart) \<times> db"
where
  "updateCartItem u productId quantity s =
     (case carts s (u_id u) of
        None \<Rightarrow> (Inl CartNotFound, s)
      | Some cart \<Rightarrow>
          (case findIndex (\<lambda>item. ci_product item = productId) (c_items cart) of
             None \<Rightarrow> (Inl ItemNotInCart, s)
           | Some itemIndex \<Rightarrow>
               (case products s productId of
                  None \<Rightarrow> (Inl (OnlyAvailable 0), s)
                | Some product \<Rightarrow>
                    if p_stock product < quantity then (Inl (OnlyAvailable (p_stock product)), s)
                    else
                      let cart' = cart\<lparr>c_items := (c_items cart)
                                    [itemIndex := (c_items cart ! itemIndex)
                                       \<lparr>ci_quantity := quantity, ci_price := p_price product\<rparr>]\<rparr>
                      in (Inr (populateCart (products s) cart'),
                          s\<lparr>carts := (carts s)(u_id u \<mapsto> cart')\<rparr>))))"

section \<open>Order status: \<^verbatim>\<open>updateOrderToPaid\<close>, \<^verbatim>\<open>updateOrderToDelivered\<close>, \<^verbatim>\<open>updateOrderStatus\<close>\<close>

text \<open>
  \<^verbatim>\<open>updateOrderToPaid\<close>, lines 157 to 197. \<open>now\<close> is the value of \<^verbatim>\<open>Date.now()\<close>,
  \<open>paymentResult\<close> the optional \<^verbatim>\<open>req.body.paymentResult\<close>.
\<close>

definition updateOrderToPaid ::
  "user \<Rightarrow> objectId \<Rightarrow> string option \<Rightarrow> nat \<Rightarrow> db \<Rightarrow> (error + order) \<times> db"
where
  "updateOrderToPaid u oid paymentResult now s =
     (case orders s oid of
        None \<Rightarrow> (Inl OrderNotFound, s)
      | Some order \<Rightarrow>
          if o_isPaid order then (Inl AlreadyPaid, s)
          else if o_user order \<noteq> u_id u \<and> u_role u \<noteq> ''admin'' then (Inl NotAuthorized, s)
          else
            let order1 = order\<lparr>o_isPaid := True, o_paidAt := Some now,
                               o_status := ''processing''\<rparr>;
                order2 = (case paymentResult of
                            None \<Rightarrow> order1
                          | Some r \<Rightarrow> order1\<lparr>o_paymentResult := Some r\<rparr>)
            in (Inr order2, s\<lparr>orders := (orders s)(oid \<mapsto> order2)\<rparr>))"

text \<open>\<^verbatim>\<open>updateOrderToDelivered\<close>, lines 202 to 230.\<close>

definition updateOrderToDelivered :: "objectId \<Rightarrow> nat \<Rightarrow> db \<Rightarrow> (error + order) \<times> db" where
  "updateOrderToDelivered oid now s =
     (case orders s oid of
        None \<Rightarrow> (Inl OrderNotFound, s)
      | Some order \<Rightarrow>
          if o_isDelivered order then (Inl AlreadyDelivered, s)
          else
            let order' = order\<lparr>o_isDelivered := True, o_deliveredAt := Some now,
                               o_status := ''delivered''\<rparr>
            in (Inr order', s\<lparr>orders := (orders s)(oid \<mapsto> order')\<rparr>))"

text \<open>\<^verbatim>\<open>updateOrderStatus\<close>, lines 271 to 306.\<close>

definition validStatuses :: "string list" where
  "validStatuses = [''pending'', ''processing'', ''shipped'', ''delivered'', ''cancelled'']"

definition updateOrderStatus :: "objectId \<Rightarrow> string \<Rightarrow> nat \<Rightarrow> db \<Rightarrow> (error + order) \<times> db" where
  "updateOrderStatus oid status now s =
     (if status \<notin> set validStatuses then (Inl InvalidStatus, s)
      else
        case orders s oid of
          None \<Rightarrow> (Inl OrderNotFound, s)
        | Some order \<Rightarrow>
            let order1 = order\<lparr>o_status := status\<rparr>;
                order2 = (if status = ''delivered''
                          then order1\<lparr>o_isDelivered := True, o_deliveredAt := Some now\<rparr>
                          else order1)
            in (Inr order2, s\<lparr>orders := (orders s)(oid \<mapsto> order2)\<rparr>))"

section \<open>Currency precision\<close>


section \<open>Example data\<close>

text \<open>A user, a shipping address, a product and a one-user shop, for the concrete
  evaluations below. The shop holds the product under identifier 7 and the user's cart
  with the given lines.\<close>

definition alice :: user where
  "alice = \<lparr>u_id = 1, u_role = ''user''\<rparr>"

definition addr :: shippingAddress where
  "addr = \<lparr>sa_fullName = ''A'', sa_address = ''1 Main St'', sa_city = ''X'',
           sa_postalCode = ''123'', sa_country = ''KH''\<rparr>"

definition widget :: "number \<Rightarrow> product" where
  "widget k = \<lparr>p_name = ''Widget'', p_price = 50, p_stock = k, p_images = [''w.png''],
     p_isActive = True\<rparr>"

definition line :: "objectId \<Rightarrow> number \<Rightarrow> number \<Rightarrow> cart_item" where
  "line pid q pr = \<lparr>ci_product = pid, ci_quantity = q, ci_price = pr\<rparr>"

definition shop :: "product \<Rightarrow> cart_item list \<Rightarrow> db" where
  "shop p its =
     \<lparr>carts = [1 \<mapsto> \<lparr>c_id = 10, c_user = 1, c_items = its\<rparr>],
      products = [7 \<mapsto> p], orders = Map.empty, nextId = 100\<rparr>"

text \<open>An order of user 1, newly created, and a database that holds it under
  identifier 20.\<close>

definition sampleOrder :: order where
  "sampleOrder =
     \<lparr>o_id = 20, o_user = 1, o_orderItems = [], o_shippingAddress = addr,
      o_paymentMethod = ''card'', o_paymentResult = None, o_itemsPrice = 0, o_taxPrice = 0,
      o_shippingPrice = 10, o_totalPrice = 10, o_isPaid = False, o_paidAt = None,
      o_isDelivered = False, o_deliveredAt = None, o_status = ''pending''\<rparr>"

definition orderDb :: "order \<Rightarrow> db" where
  "orderDb order =
     \<lparr>carts = Map.empty, products = Map.empty, orders = [20 \<mapsto> order], nextId = 100\<rparr>"

lemmas fixture_defs = alice_def addr_def shop_def widget_def line_def

lemmas checkout_defs = createOrder_def populate_def Order_create_def orderValid_def
  taxPrice_def shippingPrice_def incStock_def firstImage_def Let_def

lemmas cart_defs = getCart_def addToCart_def updateCartItem_def Cart_create_def populateCart_def
  validItem_def depopulate_def List.map_filter_simps

lemmas status_defs = updateOrderStatus_def updateOrderToDelivered_def updateOrderToPaid_def
  validStatuses_def sampleOrder_def orderDb_def Let_def

section \<open>The validation loop and the stock loop\<close>



text \<open>Every line of a cart that passes the loop has an existing, active product with
  enough stock.\<close>

lemma validateItems_checked:
  "validateItems items acc t = Inr r \<Longrightarrow> item \<in> set items \<Longrightarrow>
     \<exists>pid p. pi_product item = Some (pid, p) \<and> p_isActive p \<and> pi_quantity item \<le> p_stock p"
proof (induction items arbitrary: acc t)
  case Nil
  then show ?case by simp
next
  case (Cons x rest)
  then show ?case
    by (auto split: option.splits prod.splits if_splits simp: Let_def)
qed

text \<open>Populating a line keeps its price and its quantity.\<close>

lemma populate_fields [simp]:
  "pi_price (populate ps it) = ci_price it" "pi_quantity (populate ps it) = ci_quantity it"
  by (simp_all add: populate_def)

text \<open>When some line fails one of the three checks, the loop returns the error of the
  first such line of the cart.\<close>

lemma validateItems_first_bad:
  assumes "find (\<lambda>l. case ps (ci_product l) of
                        None \<Rightarrow> True
                      | Some p \<Rightarrow> \<not> p_isActive p \<or> p_stock p < ci_quantity l) its = Some bad"
  shows "validateItems (map (populate ps) its) acc t =
           Inl (case ps (ci_product bad) of
                  None \<Rightarrow> NoLongerAvailable ''Unknown''
                | Some p \<Rightarrow> if \<not> p_isActive p then NoLongerAvailable (p_name p)
                            else NotEnoughStock (p_name p) (p_stock p))"
  using assms
proof (induction its arbitrary: acc t)
  case Nil
  then show ?case by simp
next
  case (Cons l rest)
  show ?case
  proof (cases "ps (ci_product l)")
    case None
    then have "pi_product (populate ps l) = None" by (simp add: populate_def)
    moreover from None Cons.prems have "bad = l" by simp
    ultimately show ?thesis using None by simp
  next
    case (Some p)
    then have pp: "pi_product (populate ps l) = Some (ci_product l, p)"
      by (simp add: populate_def)
    show ?thesis
    proof (cases "\<not> p_isActive p \<or> p_stock p < ci_quantity l")
      case True
      with Some Cons.prems have "bad = l" by simp
      with True Some pp show ?thesis by auto
    next
      case False
      with Some Cons.prems have "find (\<lambda>l. case ps (ci_product l) of
                        None \<Rightarrow> True
                      | Some p \<Rightarrow> \<not> p_isActive p \<or> p_stock p < ci_quantity l) rest = Some bad"
        by simp
      from Cons.IH [OF this] False pp show ?thesis by (simp add: Let_def)
    qed
  qed
qed

section \<open>What a checkout that succeeds, or fails, has done\<close>

lemma createOrder_success:
  assumes "createOrder methods u sa pm s = (Inr order, s')"
  obtains cart orderItems totalPrice ps where
    "carts s (u_id u) = Some cart"
    "c_items cart \<noteq> []"
    "validateItems (map (populate (products s)) (c_items cart)) [] 0 = Inr (orderItems, totalPrice)"
    "orderValid methods sa pm"
    "o_orderItems order = orderItems"
    "o_itemsPrice order = totalPrice"
    "o_taxPrice order = taxPrice totalPrice"
    "o_shippingPrice order = shippingPrice totalPrice"
    "o_totalPrice order = totalPrice + taxPrice totalPrice + shippingPrice totalPrice"
    "updateStock (map (populate (products s)) (c_items cart)) (products s) = (None, ps)"
    "products s' = ps"
    "carts s' = (carts s)(u_id u \<mapsto> cart\<lparr>c_items := []\<rparr>)"
    "orders s' = (orders s)(nextId s \<mapsto> order)"
  using assms
  by (auto simp: createOrder_def Order_create_def Let_def
      split: option.splits if_splits sum.splits prod.splits)


section \<open>The stock after a checkout over distinct products\<close>

text \<open>The update touches the stock of the product it names and of no other.\<close>

lemma incStock_other: "k \<noteq> pid \<Longrightarrow> incStock pid n ps k = ps k"
  by (simp add: incStock_def split: option.splits)

lemma incStock_same:
  "ps pid = Some p \<Longrightarrow> incStock pid n ps pid = Some (p\<lparr>p_stock := p_stock p + n\<rparr>)"
  by (simp add: incStock_def)

lemma updateStock_other:
  "updateStock (map (populate ps0) its) ps = (None, ps') \<Longrightarrow> k \<notin> ci_product ` set its \<Longrightarrow>
     ps' k = ps k"
proof (induction its arbitrary: ps)
  case Nil
  then show ?case by simp
next
  case (Cons l rest)
  from Cons.prems(1) obtain p where p: "ps0 (ci_product l) = Some p"
    by (cases "ps0 (ci_product l)") (simp_all add: populate_def)
  then have pp: "pi_product (populate ps0 l) = Some (ci_product l, p)"
    by (simp add: populate_def)
  from Cons.prems(1) pp
  have "updateStock (map (populate ps0) rest) (incStock (ci_product l) (- ci_quantity l) ps)
          = (None, ps')" by simp
  from Cons.IH [OF this] Cons.prems(2) show ?case by (simp add: incStock_other)
qed

lemma updateStock_distinct:
  assumes "updateStock (map (populate ps0) its) ps = (None, ps')"
    and "distinct (map ci_product its)"
    and "l \<in> set its" and "ps (ci_product l) = Some p"
  shows "ps' (ci_product l) = Some (p\<lparr>p_stock := p_stock p - ci_quantity l\<rparr>)"
  using assms
proof (induction its arbitrary: ps)
  case Nil
  then show ?case by simp
next
  case (Cons x rest)
  from Cons.prems(1) obtain q where q: "ps0 (ci_product x) = Some q"
    by (cases "ps0 (ci_product x)") (simp_all add: populate_def)
  then have pp: "pi_product (populate ps0 x) = Some (ci_product x, q)"
    by (simp add: populate_def)
  from Cons.prems(1) pp
  have rest: "updateStock (map (populate ps0) rest) (incStock (ci_product x) (- ci_quantity x) ps)
          = (None, ps')" by simp
  show ?case
  proof (cases "l = x")
    case True
    from Cons.prems(2) True have "ci_product l \<notin> ci_product ` set rest" by auto
    from updateStock_other [OF rest this] True Cons.prems(4)
    show ?thesis by (simp add: incStock_same)
  next
    case False
    with Cons.prems(3) have lr: "l \<in> set rest" by simp
    then have "ci_product l \<in> ci_product ` set rest" by (rule imageI)
    moreover from Cons.prems(2) have "ci_product x \<notin> ci_product ` set rest" by simp
    ultimately have "ci_product l \<noteq> ci_product x" by metis
    with Cons.prems(4) have "incStock (ci_product x) (- ci_quantity x) ps (ci_product l) = Some p"
      by (simp add: incStock_other)
    from Cons.IH [OF rest _ lr this] Cons.prems(2) show ?thesis by simp
  qed
qed

text \<open>When the lines of the cart reference pairwise distinct products, a successful checkout
  leaves every purchased product with its former stock less the line's quantity, and that
  is not negative.\<close>

lemma createOrder_stock_distinct:
  assumes "createOrder methods u sa pm s = (Inr order, s')"
    and "carts s (u_id u) = Some cart"
    and "distinct (map ci_product (c_items cart))"
    and "l \<in> set (c_items cart)"
  shows "\<exists>p. products s (ci_product l) = Some p \<and>
           products s' (ci_product l) = Some (p\<lparr>p_stock := p_stock p - ci_quantity l\<rparr>) \<and>
           0 \<le> p_stock p - ci_quantity l"
proof -
  from assms(1) obtain cart' orderItems totalPrice ps where
    c: "carts s (u_id u) = Some cart'"
    and v: "validateItems (map (populate (products s)) (c_items cart')) [] 0
              = Inr (orderItems, totalPrice)"
    and us: "updateStock (map (populate (products s)) (c_items cart')) (products s) = (None, ps)"
    and ps: "products s' = ps"
    by (elim createOrder_success)
  from c assms(2) have [simp]: "cart' = cart" by simp
  from assms(4) have "populate (products s) l \<in> set (map (populate (products s)) (c_items cart))"
    by simp
  from validateItems_checked [OF v [simplified] this]
  obtain p where p: "products s (ci_product l) = Some p" and q: "ci_quantity l \<le> p_stock p"
    by (auto simp: populate_def)
  from updateStock_distinct [OF us [simplified] assms(3,4) p] ps q p
  show ?thesis by simp
qed

section \<open>Checkout and later product price edits\<close>




section \<open>The cart operations\<close>






text \<open>Saving the lines that \<^verbatim>\<open>getCart\<close> keeps stores exactly the stored lines that pass
  the filter.\<close>

lemma depopulate_populate:
  "validItem (populate ps it) \<Longrightarrow> depopulate (populate ps it) = Some it"
  by (auto simp: validItem_def depopulate_def populate_def split: option.splits)

lemma map_filter_depopulate:
  "List.map_filter depopulate (filter validItem (map (populate ps) its))
     = filter (\<lambda>it. validItem (populate ps it)) its"
  by (induction its) (simp_all add: List.map_filter_simps depopulate_populate)

lemma filter_all_of_length:
  "length (filter P xs) = length xs \<Longrightarrow> filter P xs = xs"
proof -
  assume a: "length (filter P xs) = length xs"
  have "\<forall>x \<in> set xs. P x"
  proof (rule ccontr)
    assume "\<not> (\<forall>x \<in> set xs. P x)"
    then obtain x where "x \<in> set xs" "\<not> P x" by blast
    then have "length (filter P xs) < length xs" by (rule length_filter_less)
    with a show False by simp
  qed
  then show ?thesis by simp
qed

section \<open>Properties of the checkout\<close>

text \<open>
  C6. A checkout against a cart that is missing, or that has no line items, fails with
  the empty-cart error and leaves the whole database (carts, products, orders) as it was:
  no order is created.
\<close>

theorem createOrder_empty_cart:
  assumes "carts s (u_id u) = None \<or> (\<exists>cart. carts s (u_id u) = Some cart \<and> c_items cart = [])"
  shows "createOrder methods u sa pm s = (Inl CartEmpty, s)"
  using assms by (auto simp: createOrder_def)

text \<open>The user's cart exists and is empty: the checkout answers \<open>CartEmpty\<close> and the
  database is the one it started from.\<close>

theorem createOrder_empty_cart_witness:
  "carts (shop (widget 5) []) (u_id alice) = Some \<lparr>c_id = 10, c_user = 1, c_items = []\<rparr> \<and>
   createOrder [''card''] alice addr ''card'' (shop (widget 5) []) =
     (Inl CartEmpty, shop (widget 5) [])"
  using createOrder_empty_cart [of "shop (widget 5) []" alice "[''card'']" addr "''card''"]
  by (simp add: fixture_defs)







text \<open>
  C2 (as amended). When some line of the cart references a product that is missing, or
  inactive, or has less stock than the line's quantity, the checkout fails and the database
  after it is the database before it: no order is created and no stock is changed. The
  error is the one of the first such line of the cart: it carries the product's name when
  the product exists (inactive, or short of stock, then with the stock available), and the
  fixed name \<^verbatim>\<open>Unknown\<close> when the product is missing.
\<close>

theorem createOrder_invalid_line:
  assumes "carts s (u_id u) = Some cart"
    and "it \<in> set (c_items cart)"
    and "case products s (ci_product it) of
           None \<Rightarrow> True
         | Some p \<Rightarrow> \<not> p_isActive p \<or> p_stock p < ci_quantity it"
  shows "\<exists>bad. find (\<lambda>l. case products s (ci_product l) of
                           None \<Rightarrow> True
                         | Some p \<Rightarrow> \<not> p_isActive p \<or> p_stock p < ci_quantity l)
                    (c_items cart) = Some bad \<and>
           createOrder methods u sa pm s =
             (Inl (case products s (ci_product bad) of
                     None \<Rightarrow> NoLongerAvailable ''Unknown''
                   | Some p \<Rightarrow> if \<not> p_isActive p then NoLongerAvailable (p_name p)
                               else NotEnoughStock (p_name p) (p_stock p)),
              s)"
proof -
  let ?bad = "\<lambda>l. case products s (ci_product l) of
                           None \<Rightarrow> True
                         | Some p \<Rightarrow> \<not> p_isActive p \<or> p_stock p < ci_quantity l"
  from assms(2,3) have "find ?bad (c_items cart) \<noteq> None"
    by (auto simp: find_None_iff)
  then obtain bad where bad: "find ?bad (c_items cart) = Some bad" by auto
  have ne: "c_items cart \<noteq> []" using assms(2) by auto
  from validateItems_first_bad [OF bad, of "[]" 0] assms(1) ne
  have "createOrder methods u sa pm s =
             (Inl (case products s (ci_product bad) of
                     None \<Rightarrow> NoLongerAvailable ''Unknown''
                   | Some p \<Rightarrow> if \<not> p_isActive p then NoLongerAvailable (p_name p)
                               else NotEnoughStock (p_name p) (p_stock p)),
              s)"
    by (simp add: createOrder_def)
  with bad show ?thesis by blast
qed

text \<open>A cart whose second line asks for 2 of a product with stock 1, and a cart with a
  line of an inactive product: each checkout fails with the product's name and leaves the
  database unchanged.\<close>

theorem createOrder_invalid_line_witness:
  "createOrder [''card''] alice addr ''card'' (shop (widget 1) [line 7 1 50, line 7 2 50])
     = (Inl (NotEnoughStock ''Widget'' 1), shop (widget 1) [line 7 1 50, line 7 2 50]) \<and>
   createOrder [''card''] alice addr ''card''
       (shop ((widget 5)\<lparr>p_isActive := False\<rparr>) [line 7 2 50])
     = (Inl (NoLongerAvailable ''Widget''),
        shop ((widget 5)\<lparr>p_isActive := False\<rparr>) [line 7 2 50])"
proof -
  let ?s1 = "shop (widget 1) [line 7 1 50, line 7 2 50]"
  let ?s2 = "shop ((widget 5)\<lparr>p_isActive := False\<rparr>) [line 7 2 50]"
  have c1: "carts ?s1 (u_id alice)
      = Some \<lparr>c_id = 10, c_user = 1, c_items = [line 7 1 50, line 7 2 50]\<rparr>"
    by (simp add: fixture_defs)
  have c2: "carts ?s2 (u_id alice) = Some \<lparr>c_id = 10, c_user = 1, c_items = [line 7 2 50]\<rparr>"
    by (simp add: fixture_defs)
  have m1: "line 7 2 50 \<in> set (c_items \<lparr>c_id = 10, c_user = 1,
               c_items = [line 7 1 50, line 7 2 50]\<rparr>)"
    and m2: "line 7 2 50 \<in> set (c_items \<lparr>c_id = 10, c_user = 1, c_items = [line 7 2 50]\<rparr>)"
    by simp_all
  have o1: "case products ?s1 (ci_product (line 7 2 50)) of
           None \<Rightarrow> True
         | Some p \<Rightarrow> \<not> p_isActive p \<or> p_stock p < ci_quantity (line 7 2 50)"
    and o2: "case products ?s2 (ci_product (line 7 2 50)) of
           None \<Rightarrow> True
         | Some p \<Rightarrow> \<not> p_isActive p \<or> p_stock p < ci_quantity (line 7 2 50)"
    by (simp_all add: fixture_defs)
  from createOrder_invalid_line [OF c1 m1 o1, of "[''card'']" addr "''card''"]
  have r1: "createOrder [''card''] alice addr ''card'' ?s1
     = (Inl (NotEnoughStock ''Widget'' 1), ?s1)"
    by (auto simp: fixture_defs split: if_splits)
  from createOrder_invalid_line [OF c2 m2 o2, of "[''card'']" addr "''card''"]
  have r2: "createOrder [''card''] alice addr ''card'' ?s2
     = (Inl (NoLongerAvailable ''Widget''), ?s2)"
    by (auto simp: fixture_defs split: if_splits)
  from r1 r2 show ?thesis by simp
qed

text \<open>
  C2 as stated fails where the product is missing: two carts whose lines reference two
  different products that do not exist (identifiers 8 and 9) get the same answer,
  \<^verbatim>\<open>Product Unknown is no longer available\<close>, which names neither.
\<close>

theorem createOrder_missing_product_counterexample:
  "createOrder [''card''] alice addr ''card'' (shop (widget 5) [line 8 1 50])
     = (Inl (NoLongerAvailable ''Unknown''), shop (widget 5) [line 8 1 50]) \<and>
   createOrder [''card''] alice addr ''card'' (shop (widget 5) [line 9 1 50])
     = (Inl (NoLongerAvailable ''Unknown''), shop (widget 5) [line 9 1 50])"
  by (simp add: fixture_defs checkout_defs)

text \<open>
  C1. The stock update is \<^verbatim>\<open>$inc: { stock: -quantity }\<close> with no condition on the stored
  value. A cart that holds two lines of quantity 1 for the same product, of which one
  unit is in stock, passes the validation of both lines (each is compared with the stock
  read at the start), the checkout succeeds with an order of subtotal 100, and the
  product is left with stock -1. The update alone, on a product with stock 0, also
  yields -1 rather than failing.
\<close>

theorem createOrder_oversells:
  "map_sum id o_itemsPrice (fst (createOrder [''card''] alice addr ''card''
       (shop (widget 1) [line 7 1 50, line 7 1 50]))) = Inr 100 \<and>
   map_option p_stock (products (snd (createOrder [''card''] alice addr ''card''
       (shop (widget 1) [line 7 1 50, line 7 1 50]))) 7) = Some (- 1) \<and>
   map_option p_stock (incStock 7 (- 1) [7 \<mapsto> widget 0] 7) = Some (- 1)"
  by (simp add: fixture_defs checkout_defs)







section \<open>Properties of the cart\<close>

text \<open>
  C10. Reading the cart prunes it: the lines returned are the stored lines (none, for a
  user without a cart, who gets a new one) whose product exists, has positive stock and
  has at least the line's quantity in stock; every other line is dropped; the cart stored
  afterwards is the cart returned; products and orders are untouched.
\<close>

theorem getCart_prunes:
  assumes "getCart u s = (pc, s')"
  shows "pc_items pc = filter validItem (map (populate (products s))
                          (case carts s (u_id u) of None \<Rightarrow> [] | Some c \<Rightarrow> c_items c)) \<and>
         (\<exists>cart'. carts s' (u_id u) = Some cart' \<and> pc = populateCart (products s') cart') \<and>
         (\<forall>item \<in> set (pc_items pc).
            \<exists>pid p. pi_product item = Some (pid, p) \<and> products s' pid = Some p \<and>
                    0 < p_stock p \<and> pi_quantity item \<le> p_stock p) \<and>
         products s' = products s \<and> orders s' = orders s"
proof (cases "carts s (u_id u)")
  case None
  with assms have pc: "pc = \<lparr>pc_id = nextId s, pc_user = u_id u, pc_items = []\<rparr>"
    and s': "s' = s\<lparr>carts := (carts s)(u_id u \<mapsto> \<lparr>c_id = nextId s, c_user = u_id u, c_items = []\<rparr>),
                  nextId := Suc (nextId s)\<rparr>"
    by (auto simp: getCart_def Cart_create_def Let_def)
  show ?thesis using None by (simp add: pc s' populateCart_def)
next
  case (Some cart)
  let ?items = "map (populate (products s)) (c_items cart)"
  let ?valid = "filter validItem ?items"
  show ?thesis
  proof (cases "length ?valid = length ?items")
    case True
    then have same: "?valid = ?items" by (rule filter_all_of_length)
    from assms Some True
    have pc: "pc = \<lparr>pc_id = c_id cart, pc_user = c_user cart, pc_items = ?items\<rparr>"
      and s': "s' = s"
      by (auto simp: getCart_def Let_def)
    have all: "\<forall>item \<in> set ?items. validItem item"
      using same by (metis filter_id_conv)
    have "\<forall>item \<in> set ?items.
            \<exists>pid p. pi_product item = Some (pid, p) \<and> products s pid = Some p \<and>
                    0 < p_stock p \<and> pi_quantity item \<le> p_stock p"
    proof
      fix item assume "item \<in> set ?items"
      then obtain it where it: "it \<in> set (c_items cart)" "item = populate (products s) it"
        by auto
      with all have "validItem (populate (products s) it)" by simp
      then show "\<exists>pid p. pi_product item = Some (pid, p) \<and> products s pid = Some p \<and>
                    0 < p_stock p \<and> pi_quantity item \<le> p_stock p"
        unfolding it(2) by (auto simp: validItem_def populate_def split: option.splits)
    qed
    then show ?thesis using Some same by (simp add: pc s' populateCart_def)
  next
    case False
    from assms Some False
    have pc: "pc = \<lparr>pc_id = c_id cart, pc_user = c_user cart, pc_items = ?valid\<rparr>"
      and s': "s' = s\<lparr>carts := (carts s)(u_id u \<mapsto>
                     cart\<lparr>c_items := List.map_filter depopulate ?valid\<rparr>)\<rparr>"
      by (auto simp: getCart_def Let_def)
    have repop: "map (populate (products s)) (List.map_filter depopulate ?valid) = ?valid"
      unfolding map_filter_depopulate by (simp add: filter_map comp_def)
    have "\<forall>item \<in> set ?valid.
            \<exists>pid p. pi_product item = Some (pid, p) \<and> products s pid = Some p \<and>
                    0 < p_stock p \<and> pi_quantity item \<le> p_stock p"
    proof
      fix item assume "item \<in> set ?valid"
      then obtain it where it: "it \<in> set (c_items cart)" "item = populate (products s) it"
        and v: "validItem item"
        by auto
      then show "\<exists>pid p. pi_product item = Some (pid, p) \<and> products s pid = Some p \<and>
                    0 < p_stock p \<and> pi_quantity item \<le> p_stock p"
        by (auto simp: validItem_def populate_def split: option.splits)
    qed
    then show ?thesis using Some repop by (simp add: pc s' populateCart_def)
  qed
qed

text \<open>With one unit in stock, a line asking for 2 and a line of a missing product are
  dropped and the line asking for 1 is kept, in the answer and in the stored cart; with
  stock 0 a line of quantity 0 is dropped.\<close>

theorem getCart_prunes_witness:
  "pc_items (fst (getCart alice (shop (widget 1) [line 7 2 50, line 8 1 50, line 7 1 50])))
     = [\<lparr>pi_product = Some (7, widget 1), pi_quantity = 1, pi_price = 50\<rparr>] \<and>
   map_option c_items
       (carts (snd (getCart alice (shop (widget 1) [line 7 2 50, line 8 1 50, line 7 1 50]))) 1)
     = Some [line 7 1 50] \<and>
   pc_items (fst (getCart alice (shop (widget 0) [line 7 0 50]))) = []"
proof -
  let ?s = "shop (widget 1) [line 7 2 50, line 8 1 50, line 7 1 50]"
  let ?z = "shop (widget 0) [line 7 0 50]"
  obtain pc s' where a: "getCart alice ?s = (pc, s')" by (cases "getCart alice ?s")
  obtain pc0 s0 where b: "getCart alice ?z = (pc0, s0)" by (cases "getCart alice ?z")
  from getCart_prunes [OF a]
  have "pc_items pc = [\<lparr>pi_product = Some (7, widget 1), pi_quantity = 1, pi_price = 50\<rparr>]"
    by (simp add: fixture_defs validItem_def populate_def)
  moreover from getCart_prunes [OF b]
  have "pc_items pc0 = []"
    by (simp add: fixture_defs validItem_def populate_def)
  moreover have "map_option c_items (carts (snd (getCart alice ?s)) 1) = Some [line 7 1 50]"
    by (simp add: fixture_defs cart_defs populate_def Let_def)
  ultimately show ?thesis using a b by simp
qed

section \<open>Properties of the order status\<close>

text \<open>
  C8 (as amended). The status operations check no transition. \<^verbatim>\<open>updateOrderStatus\<close>
  stores any of the five valid statuses whatever the current one. \<^verbatim>\<open>updateOrderToDelivered\<close>
  refuses an order already flagged delivered and leaves it unchanged, and sets
  \<^verbatim>\<open>delivered\<close> on any other order. \<^verbatim>\<open>updateOrderToPaid\<close> refuses an order already paid
  and leaves it unchanged, and sets \<^verbatim>\<open>processing\<close> on any unpaid order of the requester
  (or of anyone, for an admin).
\<close>

theorem order_status_updates:
  assumes "orders s oid = Some order"
  shows "(status \<in> set validStatuses \<longrightarrow>
           (\<exists>order'. updateOrderStatus oid status now s
                        = (Inr order', s\<lparr>orders := (orders s)(oid \<mapsto> order')\<rparr>) \<and>
                      o_status order' = status)) \<and>
         (o_isDelivered order \<longrightarrow>
            updateOrderToDelivered oid now s = (Inl AlreadyDelivered, s)) \<and>
         (\<not> o_isDelivered order \<longrightarrow>
           (\<exists>order'. updateOrderToDelivered oid now s
                        = (Inr order', s\<lparr>orders := (orders s)(oid \<mapsto> order')\<rparr>) \<and>
                      o_status order' = ''delivered'')) \<and>
         (o_isPaid order \<longrightarrow> updateOrderToPaid u oid pr now s = (Inl AlreadyPaid, s)) \<and>
         (\<not> o_isPaid order \<and> (o_user order = u_id u \<or> u_role u = ''admin'') \<longrightarrow>
           (\<exists>order'. updateOrderToPaid u oid pr now s
                        = (Inr order', s\<lparr>orders := (orders s)(oid \<mapsto> order')\<rparr>) \<and>
                      o_status order' = ''processing''))"
proof (intro conjI impI)
  assume "status \<in> set validStatuses"
  with assms show "\<exists>order'. updateOrderStatus oid status now s
                        = (Inr order', s\<lparr>orders := (orders s)(oid \<mapsto> order')\<rparr>) \<and>
                      o_status order' = status"
    by (simp add: updateOrderStatus_def Let_def)
next
  assume "o_isDelivered order"
  with assms show "updateOrderToDelivered oid now s = (Inl AlreadyDelivered, s)"
    by (simp add: updateOrderToDelivered_def)
next
  assume "\<not> o_isDelivered order"
  with assms show "\<exists>order'. updateOrderToDelivered oid now s
                        = (Inr order', s\<lparr>orders := (orders s)(oid \<mapsto> order')\<rparr>) \<and>
                      o_status order' = ''delivered''"
    by (simp add: updateOrderToDelivered_def Let_def)
next
  assume "o_isPaid order"
  with assms show "updateOrderToPaid u oid pr now s = (Inl AlreadyPaid, s)"
    by (simp add: updateOrderToPaid_def)
next
  assume "\<not> o_isPaid order \<and> (o_user order = u_id u \<or> u_role u = ''admin'')"
  with assms show "\<exists>order'. updateOrderToPaid u oid pr now s
                        = (Inr order', s\<lparr>orders := (orders s)(oid \<mapsto> order')\<rparr>) \<and>
                      o_status order' = ''processing''"
    by (cases pr) (auto simp add: updateOrderToPaid_def Let_def)
qed

text \<open>A cancelled order is set to \<^verbatim>\<open>shipped\<close>; an order flagged delivered is refused by
  \<^verbatim>\<open>updateOrderToDelivered\<close>, a paid one by \<^verbatim>\<open>updateOrderToPaid\<close>.\<close>

theorem order_status_updates_witness:
  "map_option o_status (orders (snd (updateOrderStatus 20 ''shipped'' 5
       (orderDb (sampleOrder\<lparr>o_status := ''cancelled''\<rparr>)))) 20) = Some ''shipped'' \<and>
   updateOrderToDelivered 20 5 (orderDb (sampleOrder\<lparr>o_isDelivered := True\<rparr>))
     = (Inl AlreadyDelivered, orderDb (sampleOrder\<lparr>o_isDelivered := True\<rparr>)) \<and>
   updateOrderToPaid alice 20 None 5 (orderDb (sampleOrder\<lparr>o_isPaid := True\<rparr>))
     = (Inl AlreadyPaid, orderDb (sampleOrder\<lparr>o_isPaid := True\<rparr>))"
proof -
  have a: "orders (orderDb (sampleOrder\<lparr>o_status := ''cancelled''\<rparr>)) 20
             = Some (sampleOrder\<lparr>o_status := ''cancelled''\<rparr>)"
    and b: "orders (orderDb (sampleOrder\<lparr>o_isDelivered := True\<rparr>)) 20
             = Some (sampleOrder\<lparr>o_isDelivered := True\<rparr>)"
    and c: "orders (orderDb (sampleOrder\<lparr>o_isPaid := True\<rparr>)) 20
             = Some (sampleOrder\<lparr>o_isPaid := True\<rparr>)"
    by (simp_all add: orderDb_def)
  have v: "''shipped'' \<in> set validStatuses" by (simp add: validStatuses_def)
  from order_status_updates [OF a, of "''shipped''" 5 alice None, THEN conjunct1] v
  obtain order' where
    "updateOrderStatus 20 ''shipped'' 5 (orderDb (sampleOrder\<lparr>o_status := ''cancelled''\<rparr>))
       = (Inr order', (orderDb (sampleOrder\<lparr>o_status := ''cancelled''\<rparr>))
            \<lparr>orders := (orders (orderDb (sampleOrder\<lparr>o_status := ''cancelled''\<rparr>)))
                         (20 \<mapsto> order')\<rparr>)"
    and "o_status order' = ''shipped''"
    by blast
  then have "map_option o_status (orders (snd (updateOrderStatus 20 ''shipped'' 5
       (orderDb (sampleOrder\<lparr>o_status := ''cancelled''\<rparr>)))) 20) = Some ''shipped''"
    by simp
  moreover from order_status_updates [OF b, of "''shipped''" 5 alice None]
  have "updateOrderToDelivered 20 5 (orderDb (sampleOrder\<lparr>o_isDelivered := True\<rparr>))
     = (Inl AlreadyDelivered, orderDb (sampleOrder\<lparr>o_isDelivered := True\<rparr>))"
    by simp
  moreover from order_status_updates [OF c, of "''shipped''" 5 alice None]
  have "updateOrderToPaid alice 20 None 5 (orderDb (sampleOrder\<lparr>o_isPaid := True\<rparr>))
     = (Inl AlreadyPaid, orderDb (sampleOrder\<lparr>o_isPaid := True\<rparr>))"
    by simp
  ultimately show ?thesis by simp
qed

text \<open>
  C8 as stated fails: an order delivered through \<^verbatim>\<open>updateOrderToDelivered\<close> is set back
  to \<^verbatim>\<open>pending\<close> by \<^verbatim>\<open>updateOrderStatus\<close>; a cancelled order becomes \<^verbatim>\<open>processing\<close>
  when paid and \<^verbatim>\<open>delivered\<close> when delivered.
\<close>

theorem order_status_terminal_counterexample:
  "map_option o_status (orders (snd (updateOrderToDelivered 20 5 (orderDb sampleOrder))) 20)
     = Some ''delivered'' \<and>
   map_option o_status (orders (snd (updateOrderStatus 20 ''pending'' 6
       (snd (updateOrderToDelivered 20 5 (orderDb sampleOrder))))) 20)
     = Some ''pending'' \<and>
   map_option o_status (orders (snd (updateOrderStatus 20 ''cancelled'' 5 (orderDb sampleOrder))) 20)
     = Some ''cancelled'' \<and>
   map_option o_status (orders (snd (updateOrderToPaid alice 20 None 6
       (snd (updateOrderStatus 20 ''cancelled'' 5 (orderDb sampleOrder))))) 20)
     = Some ''processing'' \<and>
   map_option o_status (orders (snd (updateOrderToDelivered 20 6
       (snd (updateOrderStatus 20 ''cancelled'' 5 (orderDb sampleOrder))))) 20)
     = Some ''delivered''"
  by (simp add: status_defs alice_def)

end
